theory Spec2Isabelle
  imports Complex_Main
begin

section \<open>Data model\<close>

text \<open>
  The two enumerations of the schema (\<^verbatim>\<open>GitHubStatus\<close>, \<^verbatim>\<open>WorkflowStatus\<close>). The constructors
  are capitalised because \<^verbatim>\<open>open\<close> and \<^verbatim>\<open>end\<close> are taken in Isabelle.
\<close>

datatype GitHubStatus = Open | Closed

datatype WorkflowStatus = Pending | In_process | End

text \<open>
  A \<^verbatim>\<open>Date\<close> built by \<^verbatim>\<open>new Date(s)\<close> from the ISO-8601 text of the remote record is
  represented by that text.
\<close>

datatype Date = Date string

text \<open>
  The persisted row. \<^verbatim>\<open>id\<close> is called \<open>id_issue\<close> (\<open>id\<close> is the identity function of HOL).
  The bookkeeping columns \<^verbatim>\<open>created_at\<close> and \<^verbatim>\<open>updated_at\<close> are maintained by the storage
  layer alone, no source function reads or writes them, and they are left out.
\<close>

record Issue =
  id_issue :: string
  githubNumber :: int
  repository :: string
  title :: string
  description :: "string option"
  statusGithub :: GitHubStatus
  workflowStatus :: WorkflowStatus
  url :: string
  labels :: "string list"
  createdAtGithub :: Date
  updatedAtGithub :: Date
  selectedContext :: "string option"
  prompt :: "string option"

text \<open>
  The remote record (\<^verbatim>\<open>interface GitHubIssue\<close>). The fields carry the prefix \<open>gh_\<close> because
  a field name can be declared once. \<open>gh_state\<close> is the text the remote sent: the code
  compares it with \<^verbatim>\<open>'open'\<close> and takes everything else as closed. \<open>gh_pull_request\<close> says
  whether the item carries the \<^verbatim>\<open>pull_request\<close> marker.
\<close>

record GitHubLabel =
  name :: string

record GitHubIssue =
  gh_number :: int
  gh_title :: string
  gh_body :: "string option"
  gh_state :: string
  gh_html_url :: string
  gh_labels :: "GitHubLabel list"
  gh_created_at :: string
  gh_updated_at :: string
  gh_repository_url :: string
  gh_pull_request :: bool

text \<open>
  A thrown value: an \<^verbatim>\<open>Error\<close> object with its message, or anything else. The catch blocks
  read \<^verbatim>\<open>err instanceof Error ? err.message : 'Unknown error'\<close>.
\<close>

datatype thrown = JsError string | NonError

definition errMessage :: "thrown \<Rightarrow> string" where
  "errMessage err = (case err of JsError m \<Rightarrow> m | NonError \<Rightarrow> ''Unknown error'')"

section \<open>Numbers in template literals\<close>

definition digit_char :: "nat \<Rightarrow> char" where
  "digit_char d = char_of (48 + d)"

fun showNat :: "nat \<Rightarrow> string" where
  "showNat n = (if n < 10 then [digit_char n] else showNat (n div 10) @ [digit_char (n mod 10)])"

declare showNat.simps [simp del]

definition showInt :: "int \<Rightarrow> string" where
  "showInt i = (if i < 0 then CHR ''-'' # showNat (nat (- i)) else showNat (nat i))"

section \<open>The issue store\<close>

text \<open>
  Modelled from the spec: the Issue Store is the Prisma client over one table, an external
  collaborator whose code is not part of the sources. The table is the list of its rows
  in insertion order, with a counter from which the identifier of a new row is made (an
  opaque text, generated at creation). The column \<^verbatim>\<open>selected_context\<close> holds any text, as in
  the spec and in the body type of the start route. Each operation is atomic. The environment decides
  which operations the storage layer rejects: \<open>faults op = Some err\<close> means that \<open>op\<close>
  throws \<open>err\<close> and changes nothing (a lost connection, a write conflict).
\<close>

record Store =
  rows :: "Issue list"
  idCounter :: nat

datatype DbOp =
    FindUniqueByKey int string
  | FindUniqueById string
  | CreateRow int string
  | UpdateRow string
  | CountRows
  | FindManyRows

type_synonym Faults = "DbOp \<Rightarrow> thrown option"

definition hasKey :: "int \<Rightarrow> string \<Rightarrow> Issue \<Rightarrow> bool" where
  "hasKey n repo r = (githubNumber r = n \<and> repository r = repo)"

definition findUnique_key :: "Faults \<Rightarrow> Store \<Rightarrow> int \<Rightarrow> string \<Rightarrow> thrown + Issue option" where
  "findUnique_key faults db n repo =
     (case faults (FindUniqueByKey n repo) of
        Some err \<Rightarrow> Inl err
      | None \<Rightarrow> Inr (find (hasKey n repo) (rows db)))"


definition newId :: "nat \<Rightarrow> string" where
  "newId k = CHR ''c'' # showNat k"

text \<open>
  \<^verbatim>\<open>prisma.issue.create\<close>: the row gets a new identifier; the unique index on
  \<^verbatim>\<open>(github_number, repository)\<close> rejects a second row for a key.
\<close>

definition create :: "Faults \<Rightarrow> Store \<Rightarrow> Issue \<Rightarrow> thrown + (Issue \<times> Store)" where
  "create faults db data =
     (case faults (CreateRow (githubNumber data) (repository data)) of
        Some err \<Rightarrow> Inl err
      | None \<Rightarrow>
          if \<exists>r \<in> set (rows db). hasKey (githubNumber data) (repository data) r
          then Inl (JsError ''Unique constraint failed on the fields: (`github_number`,`repository`)'')
          else
            let row = data\<lparr>id_issue := newId (idCounter db)\<rparr>
            in Inr (row, db\<lparr>rows := rows db @ [row], idCounter := Suc (idCounter db)\<rparr>))"

text \<open>
  \<^verbatim>\<open>prisma.issue.update({ where: { id }, data })\<close>: \<open>data\<close> is the function that writes the
  given fields; the row with the identifier is rewritten in place, and the operation
  throws when there is none.
\<close>

definition update :: "Faults \<Rightarrow> Store \<Rightarrow> string \<Rightarrow> (Issue \<Rightarrow> Issue) \<Rightarrow> thrown + (Issue \<times> Store)" where
  "update faults db i data =
     (case faults (UpdateRow i) of
        Some err \<Rightarrow> Inl err
      | None \<Rightarrow>
          (case find (\<lambda>r. id_issue r = i) (rows db) of
             None \<Rightarrow> Inl (JsError ''Record to update not found.'')
           | Some r \<Rightarrow>
               Inr (data r,
                    db\<lparr>rows := map (\<lambda>r. if id_issue r = i then data r else r) (rows db)\<rparr>)))"

section \<open>Reconciliation: syncIssue\<close>

datatype SyncAction = Created | Updated

text \<open>
  \<^verbatim>\<open>syncIssue(issue, repository)\<close> of \<^verbatim>\<open>lib/sync-issues.ts\<close>. The state is the store, passed
  in and returned; a throw of the storage layer is the left summand.
\<close>

definition githubStatusOf :: "GitHubIssue \<Rightarrow> GitHubStatus" where
  "githubStatusOf issue = (if gh_state issue = ''open'' then Open else Closed)"

definition labelsOf :: "GitHubIssue \<Rightarrow> string list" where
  "labelsOf issue = map name (gh_labels issue)"

definition syncIssue :: "Faults \<Rightarrow> Store \<Rightarrow> GitHubIssue \<Rightarrow> string \<Rightarrow> thrown + (SyncAction \<times> Store)" where
  "syncIssue faults db issue repo =
     (let githubStatus = githubStatusOf issue;
          labels' = labelsOf issue
      in case findUnique_key faults db (gh_number issue) repo of
           Inl err \<Rightarrow> Inl err
         | Inr None \<Rightarrow>
             (let workflowStatus' = (if githubStatus = Closed then End else Pending)
              in case create faults db
                   \<lparr> id_issue = [],
                     githubNumber = gh_number issue,
                     repository = repo,
                     title = gh_title issue,
                     description = gh_body issue,
                     statusGithub = githubStatus,
                     workflowStatus = workflowStatus',
                     url = gh_html_url issue,
                     labels = labels',
                     createdAtGithub = Date (gh_created_at issue),
                     updatedAtGithub = Date (gh_updated_at issue),
                     selectedContext = None,
                     prompt = None \<rparr> of
                   Inl err \<Rightarrow> Inl err
                 | Inr (_, db') \<Rightarrow> Inr (Created, db'))
         | Inr (Some existing) \<Rightarrow>
             (let newWorkflowStatus =
                    (if githubStatus = Closed then End
                     else if statusGithub existing = Closed \<and> githubStatus = Open then Pending
                     else workflowStatus existing)
              in case update faults db (id_issue existing)
                   (\<lambda>r. r\<lparr> title := gh_title issue,
                            description := gh_body issue,
                            statusGithub := githubStatus,
                            workflowStatus := newWorkflowStatus,
                            url := gh_html_url issue,
                            labels := labels',
                            updatedAtGithub := Date (gh_updated_at issue) \<rparr>) of
                   Inl err \<Rightarrow> Inl err
                 | Inr (_, db') \<Rightarrow> Inr (Updated, db')))"

section \<open>Text helpers of the orchestrator\<close>

text \<open>\<^verbatim>\<open>String.prototype.split\<close> with a one-character separator, and \<^verbatim>\<open>trim\<close> (on the
  ASCII white space).\<close>

fun split :: "char \<Rightarrow> string \<Rightarrow> string list" where
  "split c [] = [[]]"
| "split c (x # xs) =
     (if x = c then [] # split c xs
      else (case split c xs of [] \<Rightarrow> [[x]] | w # ws \<Rightarrow> (x # w) # ws))"

definition isWhiteSpace :: "char \<Rightarrow> bool" where
  "isWhiteSpace c = ((of_char c :: nat) \<in> {9, 10, 11, 12, 13, 32})"


text \<open>
  \<^verbatim>\<open>extractRepoFromUrl\<close>: the regular expression \<^verbatim>\<open>/repos\/(.+)$/\<close> matches at the first place
  where \<^verbatim>\<open>repos/\<close> is followed, up to the end of the text, by at least one character and no
  line terminator; without a match the text itself is returned.
\<close>

definition noLineTerminator :: "string \<Rightarrow> bool" where
  "noLineTerminator s = (\<forall>c \<in> set s. (of_char c :: nat) \<noteq> 10 \<and> (of_char c :: nat) \<noteq> 13)"

fun matchRepos :: "string \<Rightarrow> string option" where
  "matchRepos [] = None"
| "matchRepos (x # xs) =
     (if take 6 (x # xs) = ''repos/'' \<and> drop 6 (x # xs) \<noteq> [] \<and> noLineTerminator (drop 6 (x # xs))
      then Some (drop 6 (x # xs))
      else matchRepos xs)"

definition extractRepoFromUrl :: "string \<Rightarrow> string" where
  "extractRepoFromUrl repoUrl = (case matchRepos repoUrl of Some m \<Rightarrow> m | None \<Rightarrow> repoUrl)"

section \<open>The GitHub issue fetcher\<close>

text \<open>
  What \<^verbatim>\<open>fetch\<close> gives: a rejection, or a response with its status line, its body text and
  the value of \<^verbatim>\<open>response.json()\<close> (which may throw; for the search endpoint the list is
  \<^verbatim>\<open>data.items\<close>).
\<close>

record HttpResponse =
  ok :: bool
  status :: nat
  statusText :: string
  bodyText :: string
  json :: "thrown + GitHubIssue list"

type_synonym FetchOutcome = "thrown + HttpResponse"


definition perPage :: nat where
  "perPage = 100"

definition apiError :: "HttpResponse \<Rightarrow> string" where
  "apiError response =
     ''GitHub API error: '' @ showNat (status response) @ '' '' @ statusText response"

text \<open>
  The \<^verbatim>\<open>while (true)\<close> loop of \<^verbatim>\<open>fetchIssuesFromRepo\<close>, with its variables \<open>page\<close> and
  \<open>issues\<close>; \<open>fetch\<close> is the request for a page number. The loop ends at the first page that
  is not full, and it does not end when every page is full: then the value is \<open>None\<close>.
\<close>

partial_function (option) fetchIssuesFromRepo_loop ::
  "(nat \<Rightarrow> FetchOutcome) \<Rightarrow> nat \<Rightarrow> GitHubIssue list \<Rightarrow> (thrown + GitHubIssue list) option" where
  "fetchIssuesFromRepo_loop fetch page issues =
     (case fetch page of
        Inl err \<Rightarrow> Some (Inl err)
      | Inr response \<Rightarrow>
          if \<not> ok response then Some (Inl (JsError (apiError response)))
          else (case json response of
                  Inl err \<Rightarrow> Some (Inl err)
                | Inr data \<Rightarrow>
                    if length data < perPage
                    then Some (Inr (issues @ filter (\<lambda>item. \<not> gh_pull_request item) data))
                    else fetchIssuesFromRepo_loop fetch (page + 1)
                           (issues @ filter (\<lambda>item. \<not> gh_pull_request item) data)))"


section \<open>The sync orchestrator\<close>

record SyncResult =
  created :: nat
  updated :: nat
  errors :: "string list"

definition syncErrorMsg :: "GitHubIssue \<Rightarrow> string \<Rightarrow> thrown \<Rightarrow> string" where
  "syncErrorMsg issue repo err =
     ''Error syncing issue #'' @ showInt (gh_number issue) @ '' from '' @ repo @ '': '' @ errMessage err"





text \<open>The environment: \<^verbatim>\<open>process.env.GH_TOKEN\<close> and \<^verbatim>\<open>process.env.GH_REPOS\<close>.\<close>

record Env =
  GH_TOKEN :: "string option"
  GH_REPOS :: "string option"



section \<open>Sync of the issues assigned to a user\<close>

text \<open>
  \<^verbatim>\<open>lib/fetch-user-issues.ts\<close>. The remote side is the outcome of the one search request
  made for a token and a user name.
\<close>

type_synonym Search = "string \<Rightarrow> string \<Rightarrow> FetchOutcome"

record FetchResult =
  fr_issues :: "GitHubIssue list"
  fr_total :: nat
  fr_errors :: "string list"

definition userFetchErrorMsg :: "string \<Rightarrow> thrown \<Rightarrow> string" where
  "userFetchErrorMsg username err =
     ''Error fetching issues for user '' @ username @ '': '' @ errMessage err"

definition fetchUserAssignedIssues :: "Search \<Rightarrow> string \<Rightarrow> string \<Rightarrow> FetchResult" where
  "fetchUserAssignedIssues search username token =
     (case search token username of
        Inl err \<Rightarrow>
          \<lparr> fr_issues = [], fr_total = 0, fr_errors = [userFetchErrorMsg username err] \<rparr>
      | Inr response \<Rightarrow>
          if \<not> ok response
          then \<lparr> fr_issues = [], fr_total = 0,
                 fr_errors = [userFetchErrorMsg username
                                (JsError (apiError response @ '' - '' @ bodyText response))] \<rparr>
          else (case json response of
                  Inl err \<Rightarrow>
                    \<lparr> fr_issues = [], fr_total = 0, fr_errors = [userFetchErrorMsg username err] \<rparr>
                | Inr items \<Rightarrow>
                    let issuesOnly = filter (\<lambda>item. \<not> gh_pull_request item) items
                    in \<lparr> fr_issues = issuesOnly, fr_total = length issuesOnly, fr_errors = [] \<rparr>))"

text \<open>
  The body of the \<^verbatim>\<open>try\<close> block inside the loop of \<^verbatim>\<open>syncUserAssignedIssues\<close>: what is done
  for one issue. It gives the action, the row that was written and the new store, or what
  was thrown.
\<close>

definition syncUserIssue :: "Faults \<Rightarrow> Store \<Rightarrow> GitHubIssue \<Rightarrow> thrown + (SyncAction \<times> Issue \<times> Store)" where
  "syncUserIssue faults db issue =
     (let repository' = extractRepoFromUrl (gh_repository_url issue);
          githubStatus = githubStatusOf issue;
          labels' = labelsOf issue
      in case findUnique_key faults db (gh_number issue) repository' of
           Inl err \<Rightarrow> Inl err
         | Inr None \<Rightarrow>
             (let workflowStatus' = (if githubStatus = Closed then End else Pending)
              in case create faults db
                   \<lparr> id_issue = [],
                     githubNumber = gh_number issue,
                     repository = repository',
                     title = gh_title issue,
                     description = gh_body issue,
                     statusGithub = githubStatus,
                     workflowStatus = workflowStatus',
                     url = gh_html_url issue,
                     labels = labels',
                     createdAtGithub = Date (gh_created_at issue),
                     updatedAtGithub = Date (gh_updated_at issue),
                     selectedContext = None,
                     prompt = None \<rparr> of
                   Inl err \<Rightarrow> Inl err
                 | Inr (row, db') \<Rightarrow> Inr (Created, row, db'))
         | Inr (Some existing) \<Rightarrow>
             (let newWorkflowStatus =
                    (if githubStatus = Closed then End
                     else if statusGithub existing = Closed \<and> githubStatus = Open then Pending
                     else workflowStatus existing)
              in case update faults db (id_issue existing)
                   (\<lambda>r. r\<lparr> title := gh_title issue,
                            description := gh_body issue,
                            statusGithub := githubStatus,
                            workflowStatus := newWorkflowStatus,
                            url := gh_html_url issue,
                            labels := labels',
                            updatedAtGithub := Date (gh_updated_at issue) \<rparr>) of
                   Inl err \<Rightarrow> Inl err
                 | Inr (row, db') \<Rightarrow> Inr (Updated, row, db')))"

record UserSyncResult = SyncResult +
  issues :: "Issue list"

fun syncUserIssues_loop ::
  "Faults \<Rightarrow> GitHubIssue list \<Rightarrow> Store \<times> UserSyncResult \<Rightarrow> Store \<times> UserSyncResult" where
  "syncUserIssues_loop faults [] (db, syncResult) = (db, syncResult)"
| "syncUserIssues_loop faults (issue # rest) (db, syncResult) =
     (case syncUserIssue faults db issue of
        Inr (action, row, db') \<Rightarrow>
          syncUserIssues_loop faults rest
            (db', if action = Created
                  then syncResult\<lparr>created := created syncResult + 1,
                                  issues := issues syncResult @ [row]\<rparr>
                  else syncResult\<lparr>updated := updated syncResult + 1,
                                  issues := issues syncResult @ [row]\<rparr>)
      | Inl err \<Rightarrow>
          syncUserIssues_loop faults rest
            (db, syncResult\<lparr>errors := errors syncResult
                 @ [syncErrorMsg issue (extractRepoFromUrl (gh_repository_url issue)) err]\<rparr>))"

definition syncUserAssignedIssues ::
  "Env \<Rightarrow> Search \<Rightarrow> Faults \<Rightarrow> Store \<Rightarrow> string \<Rightarrow> thrown + (UserSyncResult \<times> Store)" where
  "syncUserAssignedIssues env search faults db username =
     (case GH_TOKEN env of
        None \<Rightarrow> Inl (JsError ''GH_TOKEN environment variable is not set'')
      | Some token \<Rightarrow>
          if token = [] then Inl (JsError ''GH_TOKEN environment variable is not set'')
          else
            let fetchResult = fetchUserAssignedIssues search username token;
                (db', syncResult) =
                   syncUserIssues_loop faults (fr_issues fetchResult)
                     (db, \<lparr> created = 0, updated = 0, errors = fr_errors fetchResult, issues = [] \<rparr>)
            in Inr (syncResult, db'))"

section \<open>JavaScript numbers of the list endpoint\<close>

text \<open>
  The numbers that the list endpoint computes with: \<^verbatim>\<open>parseInt\<close> gives an integer or
  \<^verbatim>\<open>NaN\<close>, a division gives a fraction, an infinity or \<^verbatim>\<open>NaN\<close>. Finite values are exact
  rationals (the magnitudes of page numbers and row counts are far below \<open>2^53\<close>), and
  negative zero is not told from zero.
\<close>

datatype number = Finite rat | NaN | PosInfinity | NegInfinity

fun js_minus :: "number \<Rightarrow> number \<Rightarrow> number" where
  "js_minus (Finite x) (Finite y) = Finite (x - y)"
| "js_minus NaN _ = NaN"
| "js_minus _ NaN = NaN"
| "js_minus PosInfinity PosInfinity = NaN"
| "js_minus NegInfinity NegInfinity = NaN"
| "js_minus PosInfinity _ = PosInfinity"
| "js_minus NegInfinity _ = NegInfinity"
| "js_minus (Finite x) PosInfinity = NegInfinity"
| "js_minus (Finite x) NegInfinity = PosInfinity"

definition negate :: "number \<Rightarrow> number" where
  "negate v = (case v of Finite x \<Rightarrow> Finite (- x) | NaN \<Rightarrow> NaN
               | PosInfinity \<Rightarrow> NegInfinity | NegInfinity \<Rightarrow> PosInfinity)"

fun js_times :: "number \<Rightarrow> number \<Rightarrow> number" where
  "js_times (Finite x) (Finite y) = Finite (x * y)"
| "js_times NaN _ = NaN"
| "js_times _ NaN = NaN"
| "js_times (Finite x) v = (if x = 0 then NaN else if 0 < x then v else negate v)"
| "js_times v (Finite y) = (if y = 0 then NaN else if 0 < y then v else negate v)"
| "js_times PosInfinity v = v"
| "js_times NegInfinity v = negate v"

fun js_divide :: "number \<Rightarrow> number \<Rightarrow> number" where
  "js_divide (Finite x) (Finite y) =
     (if y \<noteq> 0 then Finite (x / y)
      else if x = 0 then NaN else if 0 < x then PosInfinity else NegInfinity)"
| "js_divide NaN _ = NaN"
| "js_divide _ NaN = NaN"
| "js_divide (Finite x) PosInfinity = Finite 0"
| "js_divide (Finite x) NegInfinity = Finite 0"
| "js_divide PosInfinity (Finite y) = (if 0 \<le> y then PosInfinity else NegInfinity)"
| "js_divide NegInfinity (Finite y) = (if 0 \<le> y then NegInfinity else PosInfinity)"
| "js_divide PosInfinity PosInfinity = NaN"
| "js_divide PosInfinity NegInfinity = NaN"
| "js_divide NegInfinity PosInfinity = NaN"
| "js_divide NegInfinity NegInfinity = NaN"

definition Math_ceil :: "number \<Rightarrow> number" where
  "Math_ceil v = (case v of Finite x \<Rightarrow> Finite (of_int \<lceil>x\<rceil>) | _ \<Rightarrow> v)"

text \<open>
  \<^verbatim>\<open>parseInt(s)\<close> without a radix: leading white space, an optional sign, an optional
  \<^verbatim>\<open>0x\<close> prefix, then the longest run of digits; \<^verbatim>\<open>NaN\<close> when the run is empty.
\<close>

definition digitValue :: "char \<Rightarrow> nat option" where
  "digitValue c =
     (let k = (of_char c :: nat)
      in if 48 \<le> k \<and> k \<le> 57 then Some (k - 48)
         else if 97 \<le> k \<and> k \<le> 122 then Some (k - 87)
         else if 65 \<le> k \<and> k \<le> 90 then Some (k - 55)
         else None)"

definition isDigit :: "nat \<Rightarrow> char \<Rightarrow> bool" where
  "isDigit radix c = (case digitValue c of Some d \<Rightarrow> d < radix | None \<Rightarrow> False)"

fun digitsValue :: "nat \<Rightarrow> nat \<Rightarrow> string \<Rightarrow> nat" where
  "digitsValue radix acc [] = acc"
| "digitsValue radix acc (c # cs) =
     digitsValue radix (acc * radix + (case digitValue c of Some d \<Rightarrow> d | None \<Rightarrow> 0)) cs"

definition parseInt :: "string \<Rightarrow> number" where
  "parseInt s =
     (let s1 = dropWhile isWhiteSpace s;
          neg = (take 1 s1 = ''-'');
          s2 = (if take 1 s1 = ''-'' \<or> take 1 s1 = ''+'' then drop 1 s1 else s1);
          hex = (take 2 s2 = ''0x'' \<or> take 2 s2 = ''0X'');
          radix = (if hex then 16 else 10);
          s3 = (if hex then drop 2 s2 else s2);
          ds = takeWhile (isDigit radix) s3
      in if ds = [] then NaN
         else Finite (of_int (if neg then - int (digitsValue radix 0 ds)
                              else int (digitsValue radix 0 ds))))"

section \<open>The list endpoint\<close>

text \<open>
  \<^verbatim>\<open>GET /api/issues\<close>. The query string is the list of its pairs; \<^verbatim>\<open>searchParams.get\<close>
  gives the first value of a name.
\<close>

type_synonym SearchParams = "(string \<times> string) list"

definition get :: "SearchParams \<Rightarrow> string \<Rightarrow> string option" where
  "get searchParams k = map_of searchParams k"

text \<open>\<^verbatim>\<open>v || d\<close> for a nullable text \<open>v\<close>.\<close>

definition orDefault :: "string option \<Rightarrow> string \<Rightarrow> string" where
  "orDefault v d = (case v of None \<Rightarrow> d | Some s \<Rightarrow> if s = [] then d else s)"

record Where =
  where_repository :: "string option"
  where_workflowStatus :: "string option"
  where_statusGithub :: "string option"

record FindManyArgs =
  arg_where :: Where
  arg_skip :: number
  arg_take :: number

definition workflowStatusName :: "WorkflowStatus \<Rightarrow> string" where
  "workflowStatusName w = (case w of Pending \<Rightarrow> ''pending'' | In_process \<Rightarrow> ''in_process'' | End \<Rightarrow> ''end'')"

definition githubStatusName :: "GitHubStatus \<Rightarrow> string" where
  "githubStatusName g = (case g of Open \<Rightarrow> ''open'' | Closed \<Rightarrow> ''closed'')"

definition matches :: "Where \<Rightarrow> Issue \<Rightarrow> bool" where
  "matches wh r =
     ((case where_repository wh of None \<Rightarrow> True | Some v \<Rightarrow> repository r = v)
      \<and> (case where_workflowStatus wh of None \<Rightarrow> True | Some v \<Rightarrow> workflowStatusName (workflowStatus r) = v)
      \<and> (case where_statusGithub wh of None \<Rightarrow> True | Some v \<Rightarrow> githubStatusName (statusGithub r) = v))"

text \<open>
  The \<^verbatim>\<open>orderBy\<close> of the route: \<^verbatim>\<open>workflowStatus\<close> ascending (the order of the enumeration:
  pending, in_process, end), then \<^verbatim>\<open>updatedAtGithub\<close> descending. Dates are compared as
  their ISO-8601 texts; the database leaves the order of rows that tie open, here they keep
  the order of the table.
\<close>

definition workflowRank :: "WorkflowStatus \<Rightarrow> nat" where
  "workflowRank w = (case w of Pending \<Rightarrow> 0 | In_process \<Rightarrow> 1 | End \<Rightarrow> 2)"

fun textLess :: "string \<Rightarrow> string \<Rightarrow> bool" where
  "textLess [] [] = False"
| "textLess [] (y # ys) = True"
| "textLess (x # xs) [] = False"
| "textLess (x # xs) (y # ys) =
     ((of_char x :: nat) < of_char y \<or> (x = y \<and> textLess xs ys))"

definition dateText :: "Date \<Rightarrow> string" where
  "dateText d = (case d of Date s \<Rightarrow> s)"

definition sortsBefore :: "Issue \<Rightarrow> Issue \<Rightarrow> bool" where
  "sortsBefore a b =
     (workflowRank (workflowStatus a) < workflowRank (workflowStatus b)
      \<or> (workflowRank (workflowStatus a) = workflowRank (workflowStatus b)
          \<and> textLess (dateText (updatedAtGithub b)) (dateText (updatedAtGithub a))))"

fun insertOrdered :: "Issue \<Rightarrow> Issue list \<Rightarrow> Issue list" where
  "insertOrdered a [] = [a]"
| "insertOrdered a (b # bs) = (if sortsBefore b a then b # insertOrdered a bs else a # b # bs)"

fun orderBy :: "Issue list \<Rightarrow> Issue list" where
  "orderBy [] = []"
| "orderBy (a # as) = insertOrdered a (orderBy as)"

text \<open>
  \<^verbatim>\<open>prisma.issue.count\<close> and \<^verbatim>\<open>prisma.issue.findMany\<close> of the storage layer, as the client
  documents them: \<open>skip\<close> and \<open>take\<close> have to be integers and \<open>skip\<close> not negative, otherwise
  the client throws a validation error; a negative \<open>take\<close> counts from the end of the
  ordered rows.
\<close>

definition count :: "Faults \<Rightarrow> Store \<Rightarrow> Where \<Rightarrow> thrown + nat" where
  "count faults db wh =
     (case faults CountRows of
        Some err \<Rightarrow> Inl err
      | None \<Rightarrow> Inr (length (filter (matches wh) (rows db))))"

definition asInteger :: "number \<Rightarrow> int option" where
  "asInteger v = (case v of Finite x \<Rightarrow> if x = of_int \<lfloor>x\<rfloor> then Some \<lfloor>x\<rfloor> else None | _ \<Rightarrow> None)"

definition findMany :: "Faults \<Rightarrow> Store \<Rightarrow> FindManyArgs \<Rightarrow> thrown + Issue list" where
  "findMany faults db args =
     (case faults FindManyRows of
        Some err \<Rightarrow> Inl err
      | None \<Rightarrow>
          (case (asInteger (arg_skip args), asInteger (arg_take args)) of
             (Some s, Some t) \<Rightarrow>
               if s < 0 then Inl (JsError ''Invalid value for skip argument'')
               else
                 let ordered = orderBy (filter (matches (arg_where args)) (rows db))
                 in if 0 \<le> t then Inr (take (nat t) (drop (nat s) ordered))
                    else Inr (rev (take (nat (- t)) (drop (nat s) (rev ordered))))
           | _ \<Rightarrow> Inl (JsError ''Invalid value provided. Expected Int'')))"

record Pagination =
  page :: number
  limit :: number
  total :: number
  totalPages :: number

datatype Body =
    IssuesBody "Issue list" Pagination
  | IssueBody Issue
  | ErrorBody string

type_synonym Response = "nat \<times> Body"

definition pageOf :: "SearchParams \<Rightarrow> number" where
  "pageOf searchParams = parseInt (orDefault (get searchParams ''page'') ''1'')"

definition limitOf :: "SearchParams \<Rightarrow> number" where
  "limitOf searchParams = parseInt (orDefault (get searchParams ''limit'') ''20'')"

definition whereOf :: "SearchParams \<Rightarrow> Where" where
  "whereOf searchParams =
     (let repository' = get searchParams ''repository'';
          workflowStatus' = get searchParams ''workflowStatus'';
          statusGithub' = get searchParams ''statusGithub''
      in \<lparr> where_repository =
             (case repository' of Some v \<Rightarrow> if v \<noteq> [] then Some v else None | None \<Rightarrow> None),
           where_workflowStatus =
             (case workflowStatus' of
                Some v \<Rightarrow> if v \<noteq> [] \<and> v \<in> set [''pending'', ''in_process'', ''end''] then Some v else None
              | None \<Rightarrow> None),
           where_statusGithub =
             (case statusGithub' of
                Some v \<Rightarrow> if v \<noteq> [] \<and> v \<in> set [''open'', ''closed''] then Some v else None
              | None \<Rightarrow> None) \<rparr>)"

definition findManyArgsOf :: "SearchParams \<Rightarrow> FindManyArgs" where
  "findManyArgsOf searchParams =
     \<lparr> arg_where = whereOf searchParams,
       arg_skip = js_times (js_minus (pageOf searchParams) (Finite 1)) (limitOf searchParams),
       arg_take = limitOf searchParams \<rparr>"

definition GET :: "Faults \<Rightarrow> Store \<Rightarrow> SearchParams \<Rightarrow> Response" where
  "GET faults db searchParams =
     (case count faults db (whereOf searchParams) of
        Inl err \<Rightarrow> (500, ErrorBody ''Failed to fetch issues'')
      | Inr n \<Rightarrow>
          (case findMany faults db (findManyArgsOf searchParams) of
             Inl err \<Rightarrow> (500, ErrorBody ''Failed to fetch issues'')
           | Inr found \<Rightarrow>
               (200, IssuesBody found
                  \<lparr> page = pageOf searchParams,
                    limit = limitOf searchParams,
                    total = Finite (of_nat n),
                    totalPages = Math_ceil (js_divide (Finite (of_nat n)) (limitOf searchParams)) \<rparr>)))"

section \<open>The start action\<close>







section \<open>Auxiliary definitions\<close>

text \<open>
  The row that the update branch writes over an existing row \<open>r\<close> (the \<^verbatim>\<open>data\<close> of
  \<^verbatim>\<open>prisma.issue.update\<close> in \<^verbatim>\<open>syncIssue\<close> and in \<^verbatim>\<open>syncUserAssignedIssues\<close>), the value of
  \<^verbatim>\<open>newWorkflowStatus\<close>, and the row that the create branch inserts.
\<close>

definition refreshed :: "Issue \<Rightarrow> GitHubIssue \<Rightarrow> WorkflowStatus \<Rightarrow> Issue" where
  "refreshed r issue w =
     r\<lparr> title := gh_title issue,
        description := gh_body issue,
        statusGithub := githubStatusOf issue,
        workflowStatus := w,
        url := gh_html_url issue,
        labels := labelsOf issue,
        updatedAtGithub := Date (gh_updated_at issue) \<rparr>"

definition mergedStatus :: "Issue \<Rightarrow> GitHubIssue \<Rightarrow> WorkflowStatus" where
  "mergedStatus existing issue =
     (if githubStatusOf issue = Closed then End
      else if statusGithub existing = Closed \<and> githubStatusOf issue = Open then Pending
      else workflowStatus existing)"

definition newRow :: "Store \<Rightarrow> GitHubIssue \<Rightarrow> string \<Rightarrow> Issue" where
  "newRow db issue repo =
     \<lparr> id_issue = newId (idCounter db),
       githubNumber = gh_number issue,
       repository = repo,
       title = gh_title issue,
       description = gh_body issue,
       statusGithub = githubStatusOf issue,
       workflowStatus = (if githubStatusOf issue = Closed then End else Pending),
       url = gh_html_url issue,
       labels = labelsOf issue,
       createdAtGithub = Date (gh_created_at issue),
       updatedAtGithub = Date (gh_updated_at issue),
       selectedContext = None,
       prompt = None \<rparr>"





text \<open>
  A request ends the paging of \<^verbatim>\<open>fetchIssuesFromRepo\<close> when it is rejected, answered with an
  error status or an unreadable body, or answered with a page that is not full.
\<close>

definition endsPaging :: "FetchOutcome \<Rightarrow> bool" where
  "endsPaging outcome =
     (case outcome of
        Inl err \<Rightarrow> True
      | Inr response \<Rightarrow>
          \<not> ok response
          \<or> (case json response of Inl err \<Rightarrow> True | Inr data \<Rightarrow> length data < perPage))"


text \<open>The query string without a parameter (\<^verbatim>\<open>URLSearchParams.delete\<close>).\<close>

definition deleteParam :: "string \<Rightarrow> SearchParams \<Rightarrow> SearchParams" where
  "deleteParam k searchParams = filter (\<lambda>(k', v). k' \<noteq> k) searchParams"

section \<open>Sample data\<close>

text \<open>A healthy storage layer, a store with one row that is in process, and the remote
  record of the same issue.\<close>

definition noFaults :: Faults where
  "noFaults = (\<lambda>op. None)"

definition sampleRow :: Issue where
  "sampleRow =
     \<lparr> id_issue = ''c0'',
       githubNumber = 7,
       repository = ''octo/app'',
       title = ''Old title'',
       description = None,
       statusGithub = Open,
       workflowStatus = In_process,
       url = ''https://github.com/octo/app/issues/7'',
       labels = [''bug''],
       createdAtGithub = Date ''2024-12-01T00:00:00Z'',
       updatedAtGithub = Date ''2024-12-02T00:00:00Z'',
       selectedContext = Some ''checkout-api'',
       prompt = Some ''fix it'' \<rparr>"

definition sampleStore :: Store where
  "sampleStore = \<lparr> rows = [sampleRow], idCounter = 1 \<rparr>"

definition sampleRemote :: GitHubIssue where
  "sampleRemote =
     \<lparr> gh_number = 7,
       gh_title = ''New title'',
       gh_body = Some ''text'',
       gh_state = ''open'',
       gh_html_url = ''https://github.com/octo/app/issues/7'',
       gh_labels = [\<lparr> name = ''bug'' \<rparr>, \<lparr> name = ''p1'' \<rparr>],
       gh_created_at = ''2024-12-01T00:00:00Z'',
       gh_updated_at = ''2024-12-05T00:00:00Z'',
       gh_repository_url = ''https://api.github.com/repos/octo/app'',
       gh_pull_request = False \<rparr>"







section \<open>Lemmas on the store\<close>

lemma find_map_preserve:
  "(\<And>x. P (g x) = P x) \<Longrightarrow> find P (map g xs) = map_option g (find P xs)"
  by (induction xs) auto

lemma find_Some_holds: "find P xs = Some x \<Longrightarrow> P x \<and> x \<in> set xs"
  by (induction xs) (auto split: if_splits)

lemma find_mem_not_None: "x \<in> set xs \<Longrightarrow> P x \<Longrightarrow> find P xs \<noteq> None"
  by (induction xs) auto

lemma update_by_key:
  assumes found: "find (hasKey n repo) (rows db) = Some existing"
    and nofault: "faults (UpdateRow (id_issue existing)) = None"
    and keeps: "\<And>r. githubNumber (f r) = githubNumber r \<and> repository (f r) = repository r"
  shows "\<exists>row. update faults db (id_issue existing) f =
           Inr (row,
                db\<lparr>rows := map (\<lambda>r. if id_issue r = id_issue existing then f r else r) (rows db)\<rparr>)"
    and "find (hasKey n repo)
           (map (\<lambda>r. if id_issue r = id_issue existing then f r else r) (rows db)) = Some (f existing)"
proof -
  from found have mem: "existing \<in> set (rows db)"
    by (simp add: find_Some_holds)
  then have "find (\<lambda>r. id_issue r = id_issue existing) (rows db) \<noteq> None"
    by (rule find_mem_not_None) simp
  then obtain r0 where "find (\<lambda>r. id_issue r = id_issue existing) (rows db) = Some r0"
    by blast
  with nofault show "\<exists>row. update faults db (id_issue existing) f =
           Inr (row,
                db\<lparr>rows := map (\<lambda>r. if id_issue r = id_issue existing then f r else r) (rows db)\<rparr>)"
    by (simp add: update_def)
  have "\<And>x. hasKey n repo (if id_issue x = id_issue existing then f x else x) = hasKey n repo x"
    by (simp add: hasKey_def keeps)
  then have "find (hasKey n repo)
           (map (\<lambda>r. if id_issue r = id_issue existing then f r else r) (rows db))
         = map_option (\<lambda>r. if id_issue r = id_issue existing then f r else r) (find (hasKey n repo) (rows db))"
    by (rule find_map_preserve)
  with found show "find (hasKey n repo)
           (map (\<lambda>r. if id_issue r = id_issue existing then f r else r) (rows db)) = Some (f existing)"
    by simp
qed

lemma syncIssue_existing:
  assumes found: "find (hasKey (gh_number issue) repo) (rows db) = Some existing"
    and nf1: "faults (FindUniqueByKey (gh_number issue) repo) = None"
    and nf2: "faults (UpdateRow (id_issue existing)) = None"
  shows "\<exists>db'. syncIssue faults db issue repo = Inr (Updated, db')
           \<and> length (rows db') = length (rows db)
           \<and> idCounter db' = idCounter db
           \<and> find (hasKey (gh_number issue) repo) (rows db')
               = Some (refreshed existing issue (mergedStatus existing issue))"
proof -
  let ?f = "\<lambda>r. refreshed r issue (mergedStatus existing issue)"
  have keeps: "\<And>r. githubNumber (?f r) = githubNumber r \<and> repository (?f r) = repository r"
    by (simp add: refreshed_def)
  from update_by_key(1)[where f = ?f and faults = faults and db = db and existing = existing, OF found nf2 keeps] obtain row where
    u: "update faults db (id_issue existing) ?f =
           Inr (row, db\<lparr>rows := map (\<lambda>r. if id_issue r = id_issue existing then ?f r else r) (rows db)\<rparr>)"
    by blast
  have "syncIssue faults db issue repo
        = Inr (Updated, db\<lparr>rows := map (\<lambda>r. if id_issue r = id_issue existing then ?f r else r) (rows db)\<rparr>)"
    using found nf1 u
    by (simp add: syncIssue_def findUnique_key_def refreshed_def mergedStatus_def Let_def)
  moreover note update_by_key(2)[where f = ?f and faults = faults and db = db and existing = existing, OF found nf2 keeps]
  ultimately show ?thesis by simp
qed

lemma syncUserIssue_existing:
  assumes found: "find (hasKey (gh_number issue) (extractRepoFromUrl (gh_repository_url issue))) (rows db)
                    = Some existing"
    and nf1: "faults (FindUniqueByKey (gh_number issue) (extractRepoFromUrl (gh_repository_url issue))) = None"
    and nf2: "faults (UpdateRow (id_issue existing)) = None"
  shows "\<exists>row db'. syncUserIssue faults db issue = Inr (Updated, row, db')
           \<and> length (rows db') = length (rows db)
           \<and> idCounter db' = idCounter db
           \<and> find (hasKey (gh_number issue) (extractRepoFromUrl (gh_repository_url issue))) (rows db')
               = Some (refreshed existing issue (mergedStatus existing issue))"
proof -
  let ?f = "\<lambda>r. refreshed r issue (mergedStatus existing issue)"
  have keeps: "\<And>r. githubNumber (?f r) = githubNumber r \<and> repository (?f r) = repository r"
    by (simp add: refreshed_def)
  from update_by_key(1)[where f = ?f and faults = faults and db = db and existing = existing,
      OF found nf2 keeps]
  obtain row where
    u: "update faults db (id_issue existing) ?f =
           Inr (row, db\<lparr>rows := map (\<lambda>r. if id_issue r = id_issue existing then ?f r else r) (rows db)\<rparr>)"
    by blast
  have "syncUserIssue faults db issue
        = Inr (Updated, row,
               db\<lparr>rows := map (\<lambda>r. if id_issue r = id_issue existing then ?f r else r) (rows db)\<rparr>)"
    using found nf1 u
    by (simp add: syncUserIssue_def findUnique_key_def refreshed_def mergedStatus_def Let_def)
  moreover note update_by_key(2)[where f = ?f and faults = faults and db = db and existing = existing,
      OF found nf2 keeps]
  ultimately show ?thesis by simp
qed

lemma find_append_new:
  "find P xs = None \<Longrightarrow> P y \<Longrightarrow> find P (xs @ [y]) = Some y"
  by (induction xs) (auto split: if_splits)

lemma find_None_no_member: "find P xs = None \<Longrightarrow> \<not> (\<exists>x \<in> set xs. P x)"
  by (induction xs) (auto split: if_splits)

lemma filter_none: "find P xs = None \<Longrightarrow> filter P xs = []"
  by (induction xs) (auto split: if_splits)

lemma syncIssue_new:
  assumes absent: "find (hasKey (gh_number issue) repo) (rows db) = None"
    and nf1: "faults (FindUniqueByKey (gh_number issue) repo) = None"
    and nf2: "faults (CreateRow (gh_number issue) repo) = None"
  shows "syncIssue faults db issue repo =
           Inr (Created, db\<lparr>rows := rows db @ [newRow db issue repo], idCounter := Suc (idCounter db)\<rparr>)"
proof -
  from absent have "\<not> (\<exists>r \<in> set (rows db). hasKey (gh_number issue) repo r)"
    by (rule find_None_no_member)
  with absent nf1 nf2 show ?thesis
    by (simp add: syncIssue_def findUnique_key_def create_def newRow_def Let_def)
qed

lemma hasKey_newRow: "hasKey (gh_number issue) repo (newRow db issue repo)"
  by (simp add: hasKey_def newRow_def)

lemma sample_repo: "extractRepoFromUrl (gh_repository_url sampleRemote) = ''octo/app''"
  by code_simp

lemma sample_found:
  "findUnique_key noFaults sampleStore (gh_number (sampleRemote\<lparr>gh_state := st\<rparr>)) ''octo/app'' = Inr (Some sampleRow)"
  by (simp add: findUnique_key_def noFaults_def sampleStore_def sampleRemote_def sampleRow_def hasKey_def)

lemma filter_map_preserve:
  "(\<And>x. P (g x) = P x) \<Longrightarrow> filter P (map g xs) = map g (filter P xs)"
  by (induction xs) auto

lemma update_keeps_key_count:
  assumes keeps: "\<And>r. githubNumber (f r) = githubNumber r \<and> repository (f r) = repository r"
  shows "length (filter (hasKey n repo) (map (\<lambda>r. if id_issue r = i then f r else r) xs))
         = length (filter (hasKey n repo) xs)"
proof -
  have "\<And>x. hasKey n repo (if id_issue x = i then f x else x) = hasKey n repo x"
    by (simp add: hasKey_def keeps)
  then have "filter (hasKey n repo) (map (\<lambda>r. if id_issue r = i then f r else r) xs)
             = map (\<lambda>r. if id_issue r = i then f r else r) (filter (hasKey n repo) xs)"
    by (rule filter_map_preserve)
  then show ?thesis by simp
qed

lemma syncIssue_existing_rows:
  assumes found: "find (hasKey (gh_number issue) repo) (rows db) = Some existing"
    and nf1: "faults (FindUniqueByKey (gh_number issue) repo) = None"
    and nf2: "faults (UpdateRow (id_issue existing)) = None"
  shows "\<exists>db'. syncIssue faults db issue repo = Inr (Updated, db')
           \<and> length (rows db') = length (rows db)
           \<and> length (filter (hasKey (gh_number issue) repo) (rows db'))
               = length (filter (hasKey (gh_number issue) repo) (rows db))
           \<and> find (hasKey (gh_number issue) repo) (rows db')
               = Some (refreshed existing issue (mergedStatus existing issue))"
proof -
  let ?f = "\<lambda>r. refreshed r issue (mergedStatus existing issue)"
  let ?g = "\<lambda>r. if id_issue r = id_issue existing then ?f r else r"
  have keeps: "\<And>r. githubNumber (?f r) = githubNumber r \<and> repository (?f r) = repository r"
    by (simp add: refreshed_def)
  from update_by_key(1)[where f = ?f and faults = faults and db = db and existing = existing,
      OF found nf2 keeps]
  obtain row where
    u: "update faults db (id_issue existing) ?f = Inr (row, db\<lparr>rows := map ?g (rows db)\<rparr>)"
    by blast
  have "syncIssue faults db issue repo = Inr (Updated, db\<lparr>rows := map ?g (rows db)\<rparr>)"
    using found nf1 u
    by (simp add: syncIssue_def findUnique_key_def refreshed_def mergedStatus_def Let_def)
  moreover note update_by_key(2)[where f = ?f and faults = faults and db = db and existing = existing,
      OF found nf2 keeps]
  moreover note update_keeps_key_count[where f = ?f and i = "id_issue existing" and xs = "rows db"
      and n = "gh_number issue" and repo = repo, OF keeps]
  ultimately show ?thesis by simp
qed


section \<open>Reconciliation rules\<close>

text \<open>
  C1. For a remote issue whose state is \<^verbatim>\<open>closed\<close> and an existing local record, whatever its
  \<open>workflowStatus\<close>, reconciliation updates the record and the stored record then has
  \<open>workflowStatus = End\<close>. This holds for \<^verbatim>\<open>syncIssue\<close> and for the copy of the rule in
  \<^verbatim>\<open>syncUserAssignedIssues\<close>, whenever the storage layer accepts the update.
\<close>

theorem closed_forces_end:
  assumes closed: "gh_state issue = ''closed''"
    and nf: "faults (UpdateRow (id_issue existing)) = None"
  shows
    "(findUnique_key faults db (gh_number issue) repo = Inr (Some existing) \<longrightarrow>
        (\<exists>db' r. syncIssue faults db issue repo = Inr (Updated, db')
           \<and> findUnique_key faults db' (gh_number issue) repo = Inr (Some r)
           \<and> id_issue r = id_issue existing
           \<and> workflowStatus r = End))
     \<and> (findUnique_key faults db (gh_number issue) (extractRepoFromUrl (gh_repository_url issue))
           = Inr (Some existing) \<longrightarrow>
        (\<exists>row db' r. syncUserIssue faults db issue = Inr (Updated, row, db')
           \<and> findUnique_key faults db' (gh_number issue) (extractRepoFromUrl (gh_repository_url issue))
               = Inr (Some r)
           \<and> id_issue r = id_issue existing
           \<and> workflowStatus r = End))"
proof (intro conjI impI)
  assume f: "findUnique_key faults db (gh_number issue) repo = Inr (Some existing)"
  then have nf1: "faults (FindUniqueByKey (gh_number issue) repo) = None"
    and found: "find (hasKey (gh_number issue) repo) (rows db) = Some existing"
    by (auto simp: findUnique_key_def split: option.splits)
  from syncIssue_existing[OF found nf1 nf] closed nf1
  show "\<exists>db' r. syncIssue faults db issue repo = Inr (Updated, db')
           \<and> findUnique_key faults db' (gh_number issue) repo = Inr (Some r)
           \<and> id_issue r = id_issue existing
           \<and> workflowStatus r = End"
    by (auto simp: findUnique_key_def refreshed_def mergedStatus_def githubStatusOf_def)
next
  let ?repo = "extractRepoFromUrl (gh_repository_url issue)"
  assume f: "findUnique_key faults db (gh_number issue) ?repo = Inr (Some existing)"
  then have nf1: "faults (FindUniqueByKey (gh_number issue) ?repo) = None"
    and found: "find (hasKey (gh_number issue) ?repo) (rows db) = Some existing"
    by (auto simp: findUnique_key_def split: option.splits)
  from syncUserIssue_existing[OF found nf1 nf] closed nf1
  show "\<exists>row db' r. syncUserIssue faults db issue = Inr (Updated, row, db')
           \<and> findUnique_key faults db' (gh_number issue) ?repo = Inr (Some r)
           \<and> id_issue r = id_issue existing
           \<and> workflowStatus r = End"
    by (auto simp: findUnique_key_def refreshed_def mergedStatus_def githubStatusOf_def)
qed

text \<open>The rule at the sample store: the row in process is closed remotely and ends.\<close>

theorem closed_forces_end_witness:
  "gh_state (sampleRemote\<lparr>gh_state := ''closed''\<rparr>) = ''closed''
   \<and> noFaults (UpdateRow (id_issue sampleRow)) = None
   \<and> findUnique_key noFaults sampleStore 7 ''octo/app'' = Inr (Some sampleRow)
   \<and> workflowStatus sampleRow = In_process
   \<and> (\<exists>db' r. syncIssue noFaults sampleStore (sampleRemote\<lparr>gh_state := ''closed''\<rparr>) ''octo/app''
                  = Inr (Updated, db')
         \<and> findUnique_key noFaults db' 7 ''octo/app'' = Inr (Some r)
         \<and> workflowStatus r = End)
   \<and> (\<exists>row db' r. syncUserIssue noFaults sampleStore (sampleRemote\<lparr>gh_state := ''closed''\<rparr>)
                  = Inr (Updated, row, db')
         \<and> findUnique_key noFaults db' 7 ''octo/app'' = Inr (Some r)
         \<and> workflowStatus r = End)"
proof -
  let ?issue = "sampleRemote\<lparr>gh_state := ''closed''\<rparr>"
  have h1: "gh_state ?issue = ''closed''" by simp
  have h2: "noFaults (UpdateRow (id_issue sampleRow)) = None" by (simp add: noFaults_def)
  have n: "gh_number ?issue = 7" by (simp add: sampleRemote_def)
  have u: "extractRepoFromUrl (gh_repository_url ?issue) = ''octo/app''"
    using sample_repo by simp
  have h3: "findUnique_key noFaults sampleStore 7 ''octo/app'' = Inr (Some sampleRow)"
    using sample_found[of "''closed''"] n by simp
  have w: "workflowStatus sampleRow = In_process" by (simp add: sampleRow_def)
  from closed_forces_end[where faults = noFaults and existing = sampleRow and issue = ?issue
      and db = sampleStore and repo = "''octo/app''"] h1 h2 h3 n u w
  show ?thesis by auto
qed

text \<open>
  C2. For an existing local record whose stored \<open>statusGithub\<close> is \<open>Closed\<close> and a remote
  issue whose state is now \<^verbatim>\<open>open\<close>, reconciliation sets \<open>workflowStatus\<close> to \<open>Pending\<close>,
  whatever the marker was, whenever the storage layer accepts the update.
\<close>

theorem reopen_resets_to_pending:
  assumes found: "findUnique_key faults db (gh_number issue) repo = Inr (Some existing)"
    and was_closed: "statusGithub existing = Closed"
    and now_open: "gh_state issue = ''open''"
    and nf: "faults (UpdateRow (id_issue existing)) = None"
  shows "\<exists>db' r. syncIssue faults db issue repo = Inr (Updated, db')
           \<and> findUnique_key faults db' (gh_number issue) repo = Inr (Some r)
           \<and> id_issue r = id_issue existing
           \<and> statusGithub r = Open
           \<and> workflowStatus r = Pending"
proof -
  from found have nf1: "faults (FindUniqueByKey (gh_number issue) repo) = None"
    and f: "find (hasKey (gh_number issue) repo) (rows db) = Some existing"
    by (auto simp: findUnique_key_def split: option.splits)
  from syncIssue_existing[OF f nf1 nf] was_closed now_open nf1
  show ?thesis
    by (auto simp: findUnique_key_def refreshed_def mergedStatus_def githubStatusOf_def)
qed

text \<open>The rule at a store whose row was closed and ended, reopened remotely.\<close>

theorem reopen_resets_to_pending_witness:
  "findUnique_key noFaults (sampleStore\<lparr>rows := [sampleRow\<lparr>statusGithub := Closed, workflowStatus := End\<rparr>]\<rparr>)
      (gh_number sampleRemote) ''octo/app''
     = Inr (Some (sampleRow\<lparr>statusGithub := Closed, workflowStatus := End\<rparr>))
   \<and> gh_state sampleRemote = ''open''
   \<and> (\<exists>db' r. syncIssue noFaults (sampleStore\<lparr>rows := [sampleRow\<lparr>statusGithub := Closed, workflowStatus := End\<rparr>]\<rparr>)
                  sampleRemote ''octo/app'' = Inr (Updated, db')
         \<and> findUnique_key noFaults db' (gh_number sampleRemote) ''octo/app'' = Inr (Some r)
         \<and> workflowStatus r = Pending)"
proof -
  let ?row = "sampleRow\<lparr>statusGithub := Closed, workflowStatus := End\<rparr>"
  let ?db = "sampleStore\<lparr>rows := [?row]\<rparr>"
  have h1: "findUnique_key noFaults ?db (gh_number sampleRemote) ''octo/app'' = Inr (Some ?row)"
    by (simp add: findUnique_key_def noFaults_def sampleRemote_def sampleRow_def hasKey_def)
  have h2: "statusGithub ?row = Closed" by simp
  have h3: "gh_state sampleRemote = ''open''" by (simp add: sampleRemote_def)
  have h4: "noFaults (UpdateRow (id_issue ?row)) = None" by (simp add: noFaults_def)
  from reopen_resets_to_pending[where faults = noFaults and db = ?db and issue = sampleRemote
      and repo = "''octo/app''" and existing = ?row, OF h1 h2 h3 h4] h1 h3
  show ?thesis by blast
qed

text \<open>
  C3. For an existing local record whose stored \<open>statusGithub\<close> is \<open>Open\<close> and a remote issue
  whose state is still \<^verbatim>\<open>open\<close>, reconciliation leaves \<open>workflowStatus\<close> as it was; a record
  in process stays in process.
\<close>

theorem open_keeps_workflowStatus:
  assumes found: "findUnique_key faults db (gh_number issue) repo = Inr (Some existing)"
    and was_open: "statusGithub existing = Open"
    and still_open: "gh_state issue = ''open''"
    and nf: "faults (UpdateRow (id_issue existing)) = None"
  shows "\<exists>db' r. syncIssue faults db issue repo = Inr (Updated, db')
           \<and> findUnique_key faults db' (gh_number issue) repo = Inr (Some r)
           \<and> id_issue r = id_issue existing
           \<and> workflowStatus r = workflowStatus existing
           \<and> (workflowStatus existing = In_process \<longrightarrow> workflowStatus r = In_process)"
proof -
  from found have nf1: "faults (FindUniqueByKey (gh_number issue) repo) = None"
    and f: "find (hasKey (gh_number issue) repo) (rows db) = Some existing"
    by (auto simp: findUnique_key_def split: option.splits)
  from syncIssue_existing[OF f nf1 nf] was_open still_open nf1
  show ?thesis
    by (auto simp: findUnique_key_def refreshed_def mergedStatus_def githubStatusOf_def)
qed

text \<open>The rule at the sample store, whose row is in process.\<close>

theorem open_keeps_workflowStatus_witness:
  "findUnique_key noFaults sampleStore (gh_number sampleRemote) ''octo/app'' = Inr (Some sampleRow)
   \<and> statusGithub sampleRow = Open
   \<and> workflowStatus sampleRow = In_process
   \<and> gh_state sampleRemote = ''open''
   \<and> (\<exists>db' r. syncIssue noFaults sampleStore sampleRemote ''octo/app'' = Inr (Updated, db')
         \<and> findUnique_key noFaults db' (gh_number sampleRemote) ''octo/app'' = Inr (Some r)
         \<and> workflowStatus r = In_process)"
proof -
  have h1: "findUnique_key noFaults sampleStore (gh_number sampleRemote) ''octo/app'' = Inr (Some sampleRow)"
    by (simp add: findUnique_key_def noFaults_def sampleStore_def sampleRemote_def sampleRow_def hasKey_def)
  have h2: "statusGithub sampleRow = Open" by (simp add: sampleRow_def)
  have h3: "gh_state sampleRemote = ''open''" by (simp add: sampleRemote_def)
  have h4: "noFaults (UpdateRow (id_issue sampleRow)) = None" by (simp add: noFaults_def)
  have w: "workflowStatus sampleRow = In_process" by (simp add: sampleRow_def)
  from open_keeps_workflowStatus[where faults = noFaults and db = sampleStore and issue = sampleRemote
      and repo = "''octo/app''" and existing = sampleRow, OF h1 h2 h3 h4] h1 h2 h3 w
  show ?thesis by auto
qed

text \<open>
  C4. When the storage layer is healthy: a remote issue without a local record for its key
  \<open>(githubNumber, repository)\<close> gets a new record, whose \<open>workflowStatus\<close> is \<open>End\<close> if the
  remote state is \<^verbatim>\<open>closed\<close> and \<open>Pending\<close> otherwise; when a record exists for the key, that
  record is updated and no row is added; and a second sync of the same remote issue is
  counted as updated, with one row for the key when there was none before.
\<close>

theorem upsert_by_key:
  assumes nf1: "faults (FindUniqueByKey (gh_number issue) repo) = None"
    and nf2: "faults (CreateRow (gh_number issue) repo) = None"
    and nf3: "\<forall>i. faults (UpdateRow i) = None"
    and st: "gh_state issue = ''open'' \<or> gh_state issue = ''closed''"
  shows
    "(find (hasKey (gh_number issue) repo) (rows db) = None \<longrightarrow>
        (\<exists>r. syncIssue faults db issue repo
                = Inr (Created, db\<lparr>rows := rows db @ [r], idCounter := Suc (idCounter db)\<rparr>)
            \<and> githubNumber r = gh_number issue
            \<and> repository r = repo
            \<and> workflowStatus r = (if gh_state issue = ''closed'' then End else Pending)))
     \<and> (\<forall>existing. find (hasKey (gh_number issue) repo) (rows db) = Some existing \<longrightarrow>
        (\<exists>db' r. syncIssue faults db issue repo = Inr (Updated, db')
            \<and> length (rows db') = length (rows db)
            \<and> length (filter (hasKey (gh_number issue) repo) (rows db'))
                = length (filter (hasKey (gh_number issue) repo) (rows db))
            \<and> find (hasKey (gh_number issue) repo) (rows db') = Some r
            \<and> id_issue r = id_issue existing))
     \<and> (\<exists>a db' db''. syncIssue faults db issue repo = Inr (a, db')
            \<and> syncIssue faults db' issue repo = Inr (Updated, db'')
            \<and> length (rows db'') = length (rows db')
            \<and> (find (hasKey (gh_number issue) repo) (rows db) = None \<longrightarrow>
                  a = Created
                  \<and> length (filter (hasKey (gh_number issue) repo) (rows db'')) = 1))"
proof (intro conjI allI impI)
  assume absent: "find (hasKey (gh_number issue) repo) (rows db) = None"
  from st have "workflowStatus (newRow db issue repo) = (if gh_state issue = ''closed'' then End else Pending)"
    by (auto simp: newRow_def githubStatusOf_def)
  with syncIssue_new[OF absent nf1 nf2]
  show "\<exists>r. syncIssue faults db issue repo
                = Inr (Created, db\<lparr>rows := rows db @ [r], idCounter := Suc (idCounter db)\<rparr>)
            \<and> githubNumber r = gh_number issue
            \<and> repository r = repo
            \<and> workflowStatus r = (if gh_state issue = ''closed'' then End else Pending)"
    by (intro exI[of _ "newRow db issue repo"]) (simp add: newRow_def)
next
  fix existing
  assume found: "find (hasKey (gh_number issue) repo) (rows db) = Some existing"
  from nf3 have nfu: "faults (UpdateRow (id_issue existing)) = None" by simp
  from syncIssue_existing_rows[OF found nf1 nfu]
  show "\<exists>db' r. syncIssue faults db issue repo = Inr (Updated, db')
            \<and> length (rows db') = length (rows db)
            \<and> length (filter (hasKey (gh_number issue) repo) (rows db'))
                = length (filter (hasKey (gh_number issue) repo) (rows db))
            \<and> find (hasKey (gh_number issue) repo) (rows db') = Some r
            \<and> id_issue r = id_issue existing"
    by (auto simp: refreshed_def)
next
  show "\<exists>a db' db''. syncIssue faults db issue repo = Inr (a, db')
            \<and> syncIssue faults db' issue repo = Inr (Updated, db'')
            \<and> length (rows db'') = length (rows db')
            \<and> (find (hasKey (gh_number issue) repo) (rows db) = None \<longrightarrow>
                  a = Created
                  \<and> length (filter (hasKey (gh_number issue) repo) (rows db'')) = 1)"
  proof (cases "find (hasKey (gh_number issue) repo) (rows db)")
    case None
    let ?r = "newRow db issue repo"
    let ?db' = "db\<lparr>rows := rows db @ [?r], idCounter := Suc (idCounter db)\<rparr>"
    have first: "syncIssue faults db issue repo = Inr (Created, ?db')"
      by (rule syncIssue_new[OF None nf1 nf2])
    have found': "find (hasKey (gh_number issue) repo) (rows ?db') = Some ?r"
      using None by (simp add: find_append_new hasKey_newRow)
    have one: "length (filter (hasKey (gh_number issue) repo) (rows ?db')) = 1"
      using None by (simp add: filter_none hasKey_newRow)
    from nf3 have nfu: "faults (UpdateRow (id_issue ?r)) = None" by simp
    from syncIssue_existing_rows[OF found' nf1 nfu] obtain db'' where
      "syncIssue faults ?db' issue repo = Inr (Updated, db'')"
      "length (rows db'') = length (rows ?db')"
      "length (filter (hasKey (gh_number issue) repo) (rows db''))
         = length (filter (hasKey (gh_number issue) repo) (rows ?db'))"
      by blast
    with first one show ?thesis by (intro exI[of _ Created] exI[of _ ?db'] exI[of _ db'']) simp
  next
    case (Some existing)
    from nf3 have nfu: "faults (UpdateRow (id_issue existing)) = None" by simp
    from syncIssue_existing_rows[OF Some nf1 nfu] obtain db' where
      first: "syncIssue faults db issue repo = Inr (Updated, db')"
      and found': "find (hasKey (gh_number issue) repo) (rows db')
                     = Some (refreshed existing issue (mergedStatus existing issue))"
      by blast
    let ?r = "refreshed existing issue (mergedStatus existing issue)"
    from nf3 have nfu': "faults (UpdateRow (id_issue ?r)) = None" by simp
    from syncIssue_existing_rows[OF found' nf1 nfu'] obtain db'' where
      "syncIssue faults db' issue repo = Inr (Updated, db'')"
      "length (rows db'') = length (rows db')"
      by blast
    with first Some show ?thesis by (intro exI[of _ Updated] exI[of _ db'] exI[of _ db'']) simp
  qed
qed

text \<open>The three parts at the empty store and at the sample store.\<close>

theorem upsert_by_key_witness:
  "noFaults (FindUniqueByKey (gh_number sampleRemote) ''octo/app'') = None
   \<and> noFaults (CreateRow (gh_number sampleRemote) ''octo/app'') = None
   \<and> (\<forall>i. noFaults (UpdateRow i) = None)
   \<and> gh_state sampleRemote = ''open''
   \<and> find (hasKey (gh_number sampleRemote) ''octo/app'') (rows \<lparr>rows = [], idCounter = 0\<rparr>) = None
   \<and> find (hasKey (gh_number sampleRemote) ''octo/app'') (rows sampleStore) = Some sampleRow
   \<and> (\<exists>r. syncIssue noFaults \<lparr>rows = [], idCounter = 0\<rparr> sampleRemote ''octo/app''
              = Inr (Created, \<lparr>rows = [r], idCounter = 1\<rparr>)
          \<and> workflowStatus r = Pending)
   \<and> (\<exists>db'. syncIssue noFaults sampleStore sampleRemote ''octo/app'' = Inr (Updated, db')
          \<and> length (rows db') = 1)
   \<and> (\<exists>db' db''. syncIssue noFaults \<lparr>rows = [], idCounter = 0\<rparr> sampleRemote ''octo/app'' = Inr (Created, db')
          \<and> syncIssue noFaults db' sampleRemote ''octo/app'' = Inr (Updated, db'')
          \<and> length (filter (hasKey (gh_number sampleRemote) ''octo/app'') (rows db'')) = 1)"
proof -
  let ?empty = "\<lparr>rows = [], idCounter = 0\<rparr>"
  have h1: "noFaults (FindUniqueByKey (gh_number sampleRemote) ''octo/app'') = None"
    and h2: "noFaults (CreateRow (gh_number sampleRemote) ''octo/app'') = None"
    and h3: "\<forall>i. noFaults (UpdateRow i) = None"
    by (simp_all add: noFaults_def)
  have h4: "gh_state sampleRemote = ''open''" by (simp add: sampleRemote_def)
  have st: "gh_state sampleRemote = ''open'' \<or> gh_state sampleRemote = ''closed''"
    using h4 by simp
  have a: "find (hasKey (gh_number sampleRemote) ''octo/app'') (rows ?empty) = None" by simp
  have b: "find (hasKey (gh_number sampleRemote) ''octo/app'') (rows sampleStore) = Some sampleRow"
    by (simp add: sampleStore_def sampleRemote_def sampleRow_def hasKey_def)
  have len: "length (rows sampleStore) = 1" by (simp add: sampleStore_def)
  note new = upsert_by_key[where faults = noFaults and issue = sampleRemote and repo = "''octo/app''"
      and db = ?empty, OF h1 h2 h3 st]
  note old = upsert_by_key[where faults = noFaults and issue = sampleRemote and repo = "''octo/app''"
      and db = sampleStore, OF h1 h2 h3 st]
  from new a h4 have c1: "\<exists>r. syncIssue noFaults ?empty sampleRemote ''octo/app''
              = Inr (Created, \<lparr>rows = [r], idCounter = 1\<rparr>)
          \<and> workflowStatus r = Pending"
    by auto
  from old b len have c2: "\<exists>db'. syncIssue noFaults sampleStore sampleRemote ''octo/app'' = Inr (Updated, db')
          \<and> length (rows db') = 1"
    by auto
  from new a have c3: "\<exists>db' db''. syncIssue noFaults ?empty sampleRemote ''octo/app'' = Inr (Created, db')
          \<and> syncIssue noFaults db' sampleRemote ''octo/app'' = Inr (Updated, db'')
          \<and> length (filter (hasKey (gh_number sampleRemote) ''octo/app'') (rows db'')) = 1"
    by blast
  from h1 h2 h3 h4 a b c1 c2 c3 show ?thesis by blast
qed

section \<open>What an update writes\<close>

text \<open>
  C7. An update of an existing record by sync, in \<^verbatim>\<open>syncIssue\<close> and in
  \<^verbatim>\<open>syncUserAssignedIssues\<close> and whatever the branch of the workflow rule, writes \<open>title\<close>,
  \<open>description\<close>, \<open>labels\<close>, \<open>url\<close>, \<open>statusGithub\<close> and \<open>updatedAtGithub\<close> from the remote
  record and \<open>workflowStatus\<close> by the rule, and the stored record differs from the previous
  one in these fields only: \<open>selectedContext\<close>, \<open>prompt\<close>, \<open>githubNumber\<close>, \<open>repository\<close>,
  \<open>createdAtGithub\<close> and the identifier are as before.
\<close>

theorem update_rewrites_remote_fields_only:
  assumes nf: "faults (UpdateRow (id_issue existing)) = None"
  shows
    "(findUnique_key faults db (gh_number issue) repo = Inr (Some existing) \<longrightarrow>
        (\<exists>db' r. syncIssue faults db issue repo = Inr (Updated, db')
           \<and> findUnique_key faults db' (gh_number issue) repo = Inr (Some r)
           \<and> title r = gh_title issue
           \<and> description r = gh_body issue
           \<and> labels r = map name (gh_labels issue)
           \<and> url r = gh_html_url issue
           \<and> statusGithub r = (if gh_state issue = ''open'' then Open else Closed)
           \<and> updatedAtGithub r = Date (gh_updated_at issue)
           \<and> r = existing\<lparr> title := title r, description := description r, labels := labels r,
                            url := url r, statusGithub := statusGithub r,
                            workflowStatus := workflowStatus r,
                            updatedAtGithub := updatedAtGithub r \<rparr>
           \<and> selectedContext r = selectedContext existing
           \<and> prompt r = prompt existing
           \<and> githubNumber r = githubNumber existing
           \<and> repository r = repository existing
           \<and> createdAtGithub r = createdAtGithub existing
           \<and> id_issue r = id_issue existing))
     \<and> (findUnique_key faults db (gh_number issue) (extractRepoFromUrl (gh_repository_url issue))
           = Inr (Some existing) \<longrightarrow>
        (\<exists>row db' r. syncUserIssue faults db issue = Inr (Updated, row, db')
           \<and> findUnique_key faults db' (gh_number issue) (extractRepoFromUrl (gh_repository_url issue))
               = Inr (Some r)
           \<and> title r = gh_title issue
           \<and> description r = gh_body issue
           \<and> labels r = map name (gh_labels issue)
           \<and> url r = gh_html_url issue
           \<and> statusGithub r = (if gh_state issue = ''open'' then Open else Closed)
           \<and> updatedAtGithub r = Date (gh_updated_at issue)
           \<and> r = existing\<lparr> title := title r, description := description r, labels := labels r,
                            url := url r, statusGithub := statusGithub r,
                            workflowStatus := workflowStatus r,
                            updatedAtGithub := updatedAtGithub r \<rparr>
           \<and> selectedContext r = selectedContext existing
           \<and> prompt r = prompt existing
           \<and> githubNumber r = githubNumber existing
           \<and> repository r = repository existing
           \<and> createdAtGithub r = createdAtGithub existing
           \<and> id_issue r = id_issue existing))"
proof (intro conjI impI)
  assume f: "findUnique_key faults db (gh_number issue) repo = Inr (Some existing)"
  then have nf1: "faults (FindUniqueByKey (gh_number issue) repo) = None"
    and found: "find (hasKey (gh_number issue) repo) (rows db) = Some existing"
    by (auto simp: findUnique_key_def split: option.splits)
  from syncIssue_existing[OF found nf1 nf] obtain db' where
    s: "syncIssue faults db issue repo = Inr (Updated, db')"
    and l: "find (hasKey (gh_number issue) repo) (rows db')
              = Some (refreshed existing issue (mergedStatus existing issue))"
    by blast
  from l nf1 have l': "findUnique_key faults db' (gh_number issue) repo
              = Inr (Some (refreshed existing issue (mergedStatus existing issue)))"
    by (simp add: findUnique_key_def)
  show "\<exists>db' r. syncIssue faults db issue repo = Inr (Updated, db')
           \<and> findUnique_key faults db' (gh_number issue) repo = Inr (Some r)
           \<and> title r = gh_title issue
           \<and> description r = gh_body issue
           \<and> labels r = map name (gh_labels issue)
           \<and> url r = gh_html_url issue
           \<and> statusGithub r = (if gh_state issue = ''open'' then Open else Closed)
           \<and> updatedAtGithub r = Date (gh_updated_at issue)
           \<and> r = existing\<lparr> title := title r, description := description r, labels := labels r,
                            url := url r, statusGithub := statusGithub r,
                            workflowStatus := workflowStatus r,
                            updatedAtGithub := updatedAtGithub r \<rparr>
           \<and> selectedContext r = selectedContext existing
           \<and> prompt r = prompt existing
           \<and> githubNumber r = githubNumber existing
           \<and> repository r = repository existing
           \<and> createdAtGithub r = createdAtGithub existing
           \<and> id_issue r = id_issue existing"
    by (intro exI[of _ db'] exI[of _ "refreshed existing issue (mergedStatus existing issue)"])
       (simp add: s l' refreshed_def githubStatusOf_def labelsOf_def)
next
  let ?repo = "extractRepoFromUrl (gh_repository_url issue)"
  assume f: "findUnique_key faults db (gh_number issue) ?repo = Inr (Some existing)"
  then have nf1: "faults (FindUniqueByKey (gh_number issue) ?repo) = None"
    and found: "find (hasKey (gh_number issue) ?repo) (rows db) = Some existing"
    by (auto simp: findUnique_key_def split: option.splits)
  from syncUserIssue_existing[OF found nf1 nf] obtain row db' where
    s: "syncUserIssue faults db issue = Inr (Updated, row, db')"
    and l: "find (hasKey (gh_number issue) ?repo) (rows db')
              = Some (refreshed existing issue (mergedStatus existing issue))"
    by blast
  from l nf1 have l': "findUnique_key faults db' (gh_number issue) ?repo
              = Inr (Some (refreshed existing issue (mergedStatus existing issue)))"
    by (simp add: findUnique_key_def)
  show "\<exists>row db' r. syncUserIssue faults db issue = Inr (Updated, row, db')
           \<and> findUnique_key faults db' (gh_number issue) ?repo = Inr (Some r)
           \<and> title r = gh_title issue
           \<and> description r = gh_body issue
           \<and> labels r = map name (gh_labels issue)
           \<and> url r = gh_html_url issue
           \<and> statusGithub r = (if gh_state issue = ''open'' then Open else Closed)
           \<and> updatedAtGithub r = Date (gh_updated_at issue)
           \<and> r = existing\<lparr> title := title r, description := description r, labels := labels r,
                            url := url r, statusGithub := statusGithub r,
                            workflowStatus := workflowStatus r,
                            updatedAtGithub := updatedAtGithub r \<rparr>
           \<and> selectedContext r = selectedContext existing
           \<and> prompt r = prompt existing
           \<and> githubNumber r = githubNumber existing
           \<and> repository r = repository existing
           \<and> createdAtGithub r = createdAtGithub existing
           \<and> id_issue r = id_issue existing"
    by (intro exI[of _ row] exI[of _ db'] exI[of _ "refreshed existing issue (mergedStatus existing issue)"])
       (simp add: s l' refreshed_def githubStatusOf_def labelsOf_def)
qed

text \<open>The sample row keeps its context, its prompt and its identifier.\<close>

theorem update_rewrites_remote_fields_only_witness:
  "noFaults (UpdateRow (id_issue sampleRow)) = None
   \<and> findUnique_key noFaults sampleStore (gh_number sampleRemote) ''octo/app'' = Inr (Some sampleRow)
   \<and> extractRepoFromUrl (gh_repository_url sampleRemote) = ''octo/app''
   \<and> (\<exists>db' r. syncIssue noFaults sampleStore sampleRemote ''octo/app'' = Inr (Updated, db')
         \<and> findUnique_key noFaults db' (gh_number sampleRemote) ''octo/app'' = Inr (Some r)
         \<and> title r = ''New title''
         \<and> selectedContext r = Some ''checkout-api''
         \<and> prompt r = Some ''fix it''
         \<and> id_issue r = ''c0'')
   \<and> (\<exists>row db' r. syncUserIssue noFaults sampleStore sampleRemote = Inr (Updated, row, db')
         \<and> findUnique_key noFaults db' (gh_number sampleRemote) ''octo/app'' = Inr (Some r)
         \<and> title r = ''New title''
         \<and> selectedContext r = Some ''checkout-api''
         \<and> prompt r = Some ''fix it''
         \<and> id_issue r = ''c0'')"
proof -
  have h1: "noFaults (UpdateRow (id_issue sampleRow)) = None" by (simp add: noFaults_def)
  have h2: "findUnique_key noFaults sampleStore (gh_number sampleRemote) ''octo/app'' = Inr (Some sampleRow)"
    by (simp add: findUnique_key_def noFaults_def sampleStore_def sampleRemote_def sampleRow_def hasKey_def)
  note h3 = sample_repo
  have t: "gh_title sampleRemote = ''New title''" by (simp add: sampleRemote_def)
  have c: "selectedContext sampleRow = Some ''checkout-api''" "prompt sampleRow = Some ''fix it''"
    "id_issue sampleRow = ''c0''"
    by (simp_all add: sampleRow_def)
  note inst = update_rewrites_remote_fields_only[where faults = noFaults and existing = sampleRow
      and db = sampleStore and issue = sampleRemote and repo = "''octo/app''", OF h1]
  from inst h2 t c have a: "\<exists>db' r. syncIssue noFaults sampleStore sampleRemote ''octo/app'' = Inr (Updated, db')
         \<and> findUnique_key noFaults db' (gh_number sampleRemote) ''octo/app'' = Inr (Some r)
         \<and> title r = ''New title''
         \<and> selectedContext r = Some ''checkout-api''
         \<and> prompt r = Some ''fix it''
         \<and> id_issue r = ''c0''"
    by (metis (no_types, lifting))
  from inst h2 h3 t c have b: "\<exists>row db' r. syncUserIssue noFaults sampleStore sampleRemote = Inr (Updated, row, db')
         \<and> findUnique_key noFaults db' (gh_number sampleRemote) ''octo/app'' = Inr (Some r)
         \<and> title r = ''New title''
         \<and> selectedContext r = Some ''checkout-api''
         \<and> prompt r = Some ''fix it''
         \<and> id_issue r = ''c0''"
    by (metis (no_types, lifting))
  from h1 h2 h3 a b show ?thesis by blast
qed

section \<open>The start action\<close>



section \<open>The orchestrator\<close>



text \<open>The paging returns only when a request ends it; when every page is full it does not
  return.\<close>

lemma fetch_loop_Some_ends:
  "fetchIssuesFromRepo_loop fetch k acc = Some y \<Longrightarrow> \<exists>j. endsPaging (fetch j)"
proof (induct rule: fetchIssuesFromRepo_loop.raw_induct[rotated, consumes 1, case_names step])
  case (step loop f k acc y)
  show ?case
  proof (cases "endsPaging (f k)")
    case True
    then show ?thesis by blast
  next
    case False
    then obtain response where r: "f k = Inr response" and okr: "ok response"
      by (cases "f k") (auto simp: endsPaging_def)
    from False r obtain data where d: "json response = Inr data" and big: "\<not> length data < perPage"
      by (cases "json response") (auto simp: endsPaging_def)
    from step(2) r okr d big
    have "loop f (k + 1) (acc @ filter (\<lambda>item. \<not> gh_pull_request item) data) = Some y"
      by simp
    then show ?thesis by (rule step(1))
  qed
qed

lemma fetch_loop_never_ends:
  "\<forall>j. \<not> endsPaging (fetch j) \<Longrightarrow> fetchIssuesFromRepo_loop fetch k acc = None"
  using fetch_loop_Some_ends[of fetch k acc] by (cases "fetchIssuesFromRepo_loop fetch k acc") auto





















section \<open>The list endpoint\<close>



lemma asInteger_of_int: "asInteger (Finite (of_int k)) = Some k"
  by (simp add: asInteger_def)

lemma parseInt_samples:
  "parseInt ''1'' = Finite 1" "parseInt ''20'' = Finite 20" "parseInt ''2'' = Finite 2"
  "parseInt ''0'' = Finite 0" "parseInt ''abc'' = NaN"
  by code_simp+

lemma skip_of_ints:
  "js_times (js_minus (Finite (of_int p)) (Finite 1)) (Finite (of_int l)) = Finite (of_int ((p - 1) * l))"
  by simp

lemma GET_valid:
  assumes healthy: "faults CountRows = None" "faults FindManyRows = None"
    and pg: "pageOf searchParams = Finite (of_int p)"
    and lm: "limitOf searchParams = Finite (of_int l)"
    and nonneg: "0 \<le> (p - 1) * l" "0 \<le> l"
  shows "GET faults db searchParams =
           (200, IssuesBody
                   (take (nat l) (drop (nat ((p - 1) * l))
                      (orderBy (filter (matches (whereOf searchParams)) (rows db)))))
                   \<lparr> page = Finite (of_int p),
                     limit = Finite (of_int l),
                     total = Finite (of_nat (length (filter (matches (whereOf searchParams)) (rows db)))),
                     totalPages =
                       Math_ceil (js_divide
                         (Finite (of_nat (length (filter (matches (whereOf searchParams)) (rows db)))))
                         (Finite (of_int l))) \<rparr>)"
proof -
  have args: "findManyArgsOf searchParams =
                \<lparr> arg_where = whereOf searchParams,
                  arg_skip = Finite (of_int ((p - 1) * l)),
                  arg_take = Finite (of_int l) \<rparr>"
    unfolding findManyArgsOf_def pg lm skip_of_ints by simp
  have fm: "findMany faults db (findManyArgsOf searchParams)
              = Inr (take (nat l) (drop (nat ((p - 1) * l))
                      (orderBy (filter (matches (whereOf searchParams)) (rows db)))))"
    unfolding args using healthy nonneg
    by (simp add: findMany_def asInteger_of_int del: of_int_mult of_int_diff)
  show ?thesis
    using healthy fm by (simp add: GET_def count_def pg lm)
qed


lemma get_deleteParam:
  "get (deleteParam k searchParams) k' = (if k' = k then None else get searchParams k')"
  by (induction searchParams) (auto simp: get_def deleteParam_def)

lemma js_times_NaN_right: "js_times x NaN = NaN"
  by (cases x) simp_all

lemma whereOf_all: "whereOf [] = \<lparr> where_repository = None, where_workflowStatus = None, where_statusGithub = None \<rparr>"
  by (simp add: whereOf_def get_def)



text \<open>
  C9. A request whose \<^verbatim>\<open>workflowStatus\<close> parameter is not one of \<^verbatim>\<open>pending\<close>, \<^verbatim>\<open>in_process\<close>,
  \<^verbatim>\<open>end\<close>, or whose \<^verbatim>\<open>statusGithub\<close> parameter is not one of \<^verbatim>\<open>open\<close>, \<^verbatim>\<open>closed\<close>, is answered
  as the same request without that parameter: the filter is not part of the \<^verbatim>\<open>where\<close>
  clause, the other filters are as before, and the responses are equal. Whatever the
  filter values are, a request with a valid page and limit to a healthy storage layer is
  answered with 200.
\<close>

theorem invalid_filter_ignored:
  "(get searchParams ''workflowStatus'' = Some v
      \<and> v \<notin> {''pending'', ''in_process'', ''end''} \<longrightarrow>
      where_workflowStatus (whereOf searchParams) = None
      \<and> whereOf searchParams = whereOf (deleteParam ''workflowStatus'' searchParams)
      \<and> GET faults db searchParams = GET faults db (deleteParam ''workflowStatus'' searchParams))
   \<and> (get searchParams ''statusGithub'' = Some v
      \<and> v \<notin> {''open'', ''closed''} \<longrightarrow>
      where_statusGithub (whereOf searchParams) = None
      \<and> whereOf searchParams = whereOf (deleteParam ''statusGithub'' searchParams)
      \<and> GET faults db searchParams = GET faults db (deleteParam ''statusGithub'' searchParams))
   \<and> (faults CountRows = None \<and> faults FindManyRows = None
      \<and> pageOf searchParams = Finite (of_int p) \<and> limitOf searchParams = Finite (of_int l)
      \<and> 1 \<le> p \<and> 1 \<le> l \<longrightarrow>
      fst (GET faults db searchParams) = 200)"
proof (intro conjI impI)
  assume a: "get searchParams ''workflowStatus'' = Some v \<and> v \<notin> {''pending'', ''in_process'', ''end''}"
  then show "where_workflowStatus (whereOf searchParams) = None"
    by (simp add: whereOf_def)
  from a show w: "whereOf searchParams = whereOf (deleteParam ''workflowStatus'' searchParams)"
    by (simp add: whereOf_def get_deleteParam)
  have pl: "pageOf (deleteParam ''workflowStatus'' searchParams) = pageOf searchParams"
    "limitOf (deleteParam ''workflowStatus'' searchParams) = limitOf searchParams"
    by (simp_all add: pageOf_def limitOf_def get_deleteParam)
  show "GET faults db searchParams = GET faults db (deleteParam ''workflowStatus'' searchParams)"
    unfolding GET_def findManyArgsOf_def pl w[symmetric] by (rule refl)
next
  assume a: "get searchParams ''statusGithub'' = Some v \<and> v \<notin> {''open'', ''closed''}"
  then show "where_statusGithub (whereOf searchParams) = None"
    by (simp add: whereOf_def)
  from a show w: "whereOf searchParams = whereOf (deleteParam ''statusGithub'' searchParams)"
    by (simp add: whereOf_def get_deleteParam)
  have pl: "pageOf (deleteParam ''statusGithub'' searchParams) = pageOf searchParams"
    "limitOf (deleteParam ''statusGithub'' searchParams) = limitOf searchParams"
    by (simp_all add: pageOf_def limitOf_def get_deleteParam)
  show "GET faults db searchParams = GET faults db (deleteParam ''statusGithub'' searchParams)"
    unfolding GET_def findManyArgsOf_def pl w[symmetric] by (rule refl)
next
  assume a: "faults CountRows = None \<and> faults FindManyRows = None
      \<and> pageOf searchParams = Finite (of_int p) \<and> limitOf searchParams = Finite (of_int l)
      \<and> 1 \<le> p \<and> 1 \<le> l"
  then have h: "faults CountRows = None" "faults FindManyRows = None"
    and pg: "pageOf searchParams = Finite (of_int p)" and lm: "limitOf searchParams = Finite (of_int l)"
    and nn: "0 \<le> (p - 1) * l" "0 \<le> l"
    by simp_all
  from GET_valid[OF h pg lm nn, of db] show "fst (GET faults db searchParams) = 200"
    by simp
qed

text \<open>The values \<^verbatim>\<open>done\<close> and \<^verbatim>\<open>merged\<close> at the sample store.\<close>

theorem invalid_filter_ignored_witness:
  "get [(''workflowStatus'', ''done''), (''statusGithub'', ''open'')] ''workflowStatus'' = Some ''done''
   \<and> ''done'' \<notin> {''pending'', ''in_process'', ''end''}
   \<and> GET noFaults sampleStore [(''workflowStatus'', ''done''), (''statusGithub'', ''open'')]
       = GET noFaults sampleStore [(''statusGithub'', ''open'')]
   \<and> get [(''statusGithub'', ''merged'')] ''statusGithub'' = Some ''merged''
   \<and> ''merged'' \<notin> {''open'', ''closed''}
   \<and> GET noFaults sampleStore [(''statusGithub'', ''merged'')] = GET noFaults sampleStore []
   \<and> fst (GET noFaults sampleStore [(''workflowStatus'', ''done''), (''statusGithub'', ''open'')]) = 200"
proof -
  let ?ps = "[(''workflowStatus'', ''done''), (''statusGithub'', ''open'')]"
  let ?qs = "[(''statusGithub'', ''merged'')]"
  have g1: "get ?ps ''workflowStatus'' = Some ''done''"
    and g2: "get ?qs ''statusGithub'' = Some ''merged''"
    by (simp_all add: get_def)
  have v1: "''done'' \<notin> {''pending'', ''in_process'', ''end''}"
    and v2: "''merged'' \<notin> {''open'', ''closed''}"
    by simp_all
  have d1: "deleteParam ''workflowStatus'' ?ps = [(''statusGithub'', ''open'')]"
    and d2: "deleteParam ''statusGithub'' ?qs = []"
    by (simp_all add: deleteParam_def)
  have h: "noFaults CountRows = None \<and> noFaults FindManyRows = None
      \<and> pageOf ?ps = Finite (of_int 1) \<and> limitOf ?ps = Finite (of_int 20)
      \<and> (1::int) \<le> 1 \<and> (1::int) \<le> 20"
    by (simp add: noFaults_def pageOf_def limitOf_def get_def orDefault_def parseInt_samples)
  note pinst = invalid_filter_ignored[where searchParams = ?ps and v = "''done''" and faults = noFaults
      and db = sampleStore and p = 1 and l = 20]
  note qinst = invalid_filter_ignored[where searchParams = ?qs and v = "''merged''" and faults = noFaults
      and db = sampleStore]
  have a: "GET noFaults sampleStore ?ps = GET noFaults sampleStore [(''statusGithub'', ''open'')]"
    using pinst[THEN conjunct1, THEN mp, OF conjI[OF g1 v1], THEN conjunct2, THEN conjunct2]
    unfolding d1 .
  have b: "GET noFaults sampleStore ?qs = GET noFaults sampleStore []"
    using qinst[THEN conjunct2, THEN conjunct1, THEN mp, OF conjI[OF g2 v2], THEN conjunct2, THEN conjunct2]
    unfolding d2 .
  have c: "fst (GET noFaults sampleStore ?ps) = 200"
    using pinst[THEN conjunct2, THEN conjunct2, THEN mp, OF h] .
  from g1 v1 a g2 v2 b c show ?thesis by (intro conjI)
qed

text \<open>
  C10. \<open>page\<close> and \<open>limit\<close> take their defaults 1 and 20 exactly when the parameter is absent
  or empty; otherwise they are what \<^verbatim>\<open>parseInt\<close> gives. A value such as \<^verbatim>\<open>abc\<close> is parsed to
  \<^verbatim>\<open>NaN\<close>, and \<^verbatim>\<open>NaN\<close> is what goes into \<open>skip\<close> (and, for \<open>limit\<close>, into \<open>take\<close>). With
  \<^verbatim>\<open>limit=0\<close> and a healthy storage layer the answer is 200 with no issues and with
  \<open>totalPages\<close> the value of \<^verbatim>\<open>Math.ceil(total / 0)\<close>, which is \<^verbatim>\<open>Infinity\<close>, or \<^verbatim>\<open>NaN\<close> when
  there is no matching row.
\<close>

theorem defaults_only_when_absent_or_empty:
  "pageOf searchParams
     = (case get searchParams ''page'' of
          None \<Rightarrow> Finite 1
        | Some v \<Rightarrow> if v = [] then Finite 1 else parseInt v)
   \<and> limitOf searchParams
     = (case get searchParams ''limit'' of
          None \<Rightarrow> Finite 20
        | Some v \<Rightarrow> if v = [] then Finite 20 else parseInt v)
   \<and> parseInt ''abc'' = NaN
   \<and> (get searchParams ''page'' = Some v \<and> v \<noteq> [] \<and> parseInt v = NaN \<longrightarrow>
        pageOf searchParams = NaN
        \<and> arg_skip (findManyArgsOf searchParams) = NaN
        \<and> arg_take (findManyArgsOf searchParams) = limitOf searchParams)
   \<and> (get searchParams ''limit'' = Some v \<and> v \<noteq> [] \<and> parseInt v = NaN \<longrightarrow>
        limitOf searchParams = NaN
        \<and> arg_skip (findManyArgsOf searchParams) = NaN
        \<and> arg_take (findManyArgsOf searchParams) = NaN)
   \<and> (get searchParams ''limit'' = Some ''0'' \<and> pageOf searchParams = Finite (of_int p)
        \<and> faults CountRows = None \<and> faults FindManyRows = None \<longrightarrow>
        GET faults db searchParams =
          (200, IssuesBody []
                  \<lparr> page = Finite (of_int p),
                    limit = Finite 0,
                    total = Finite (of_nat (length (filter (matches (whereOf searchParams)) (rows db)))),
                    totalPages =
                      Math_ceil (js_divide
                        (Finite (of_nat (length (filter (matches (whereOf searchParams)) (rows db)))))
                        (Finite 0)) \<rparr>)
        \<and> Math_ceil (js_divide
              (Finite (of_nat (length (filter (matches (whereOf searchParams)) (rows db)))))
              (Finite 0))
            = (if length (filter (matches (whereOf searchParams)) (rows db)) = 0 then NaN
               else PosInfinity))"
proof (intro conjI impI)
  show "pageOf searchParams
     = (case get searchParams ''page'' of
          None \<Rightarrow> Finite 1
        | Some v \<Rightarrow> if v = [] then Finite 1 else parseInt v)"
    by (simp add: pageOf_def orDefault_def parseInt_samples split: option.splits)
  show "limitOf searchParams
     = (case get searchParams ''limit'' of
          None \<Rightarrow> Finite 20
        | Some v \<Rightarrow> if v = [] then Finite 20 else parseInt v)"
    by (simp add: limitOf_def orDefault_def parseInt_samples split: option.splits)
  show "parseInt ''abc'' = NaN"
    by (rule parseInt_samples)
next
  assume a: "get searchParams ''page'' = Some v \<and> v \<noteq> [] \<and> parseInt v = NaN"
  then show pg: "pageOf searchParams = NaN"
    by (simp add: pageOf_def orDefault_def)
  then show "arg_skip (findManyArgsOf searchParams) = NaN"
    by (simp add: findManyArgsOf_def)
  show "arg_take (findManyArgsOf searchParams) = limitOf searchParams"
    by (simp add: findManyArgsOf_def)
next
  assume a: "get searchParams ''limit'' = Some v \<and> v \<noteq> [] \<and> parseInt v = NaN"
  then show lm: "limitOf searchParams = NaN"
    by (simp add: limitOf_def orDefault_def)
  then show "arg_skip (findManyArgsOf searchParams) = NaN"
    by (simp add: findManyArgsOf_def js_times_NaN_right)
  from lm show "arg_take (findManyArgsOf searchParams) = NaN"
    by (simp add: findManyArgsOf_def)
next
  let ?n = "length (filter (matches (whereOf searchParams)) (rows db))"
  assume a: "get searchParams ''limit'' = Some ''0'' \<and> pageOf searchParams = Finite (of_int p)
        \<and> faults CountRows = None \<and> faults FindManyRows = None"
  then have h: "faults CountRows = None" "faults FindManyRows = None"
    and pg: "pageOf searchParams = Finite (of_int p)"
    by simp_all
  from a have lm: "limitOf searchParams = Finite (of_int 0)"
    by (simp add: limitOf_def orDefault_def parseInt_samples)
  have nn: "0 \<le> (p - 1) * 0" "(0::int) \<le> 0" by simp_all
  from GET_valid[OF h pg lm nn, of db]
  show "GET faults db searchParams =
          (200, IssuesBody []
                  \<lparr> page = Finite (of_int p),
                    limit = Finite 0,
                    total = Finite (of_nat ?n),
                    totalPages = Math_ceil (js_divide (Finite (of_nat ?n)) (Finite 0)) \<rparr>)"
    by simp
next
  let ?n = "length (filter (matches (whereOf searchParams)) (rows db))"
  show "Math_ceil (js_divide (Finite (of_nat ?n)) (Finite 0))
            = (if ?n = 0 then NaN else PosInfinity)"
    by (simp add: Math_ceil_def)
qed

text \<open>The requests \<^verbatim>\<open>page=abc\<close> and \<^verbatim>\<open>limit=0\<close>.\<close>

theorem defaults_only_when_absent_or_empty_witness:
  "get [(''page'', ''abc'')] ''page'' = Some ''abc'' \<and> ''abc'' \<noteq> [] \<and> parseInt ''abc'' = NaN
   \<and> pageOf [(''page'', ''abc'')] = NaN
   \<and> arg_skip (findManyArgsOf [(''page'', ''abc'')]) = NaN
   \<and> get [(''limit'', ''0'')] ''limit'' = Some ''0''
   \<and> pageOf [(''limit'', ''0'')] = Finite (of_int 1)
   \<and> noFaults CountRows = None \<and> noFaults FindManyRows = None
   \<and> (\<exists>pg. GET noFaults sampleStore [(''limit'', ''0'')] = (200, IssuesBody [] pg)
         \<and> total pg = Finite 1 \<and> totalPages pg = PosInfinity)"
proof -
  let ?ps = "[(''page'', ''abc'')]"
  let ?qs = "[(''limit'', ''0'')]"
  have g: "get ?ps ''page'' = Some ''abc''" "get ?qs ''limit'' = Some ''0''" "get ?qs ''page'' = None"
    by (simp_all add: get_def)
  have ne: "''abc'' \<noteq> []" by simp
  have h: "noFaults CountRows = None" "noFaults FindManyRows = None" by (simp_all add: noFaults_def)
  have w: "whereOf ?qs = \<lparr> where_repository = None, where_workflowStatus = None, where_statusGithub = None \<rparr>"
    by (simp add: whereOf_def get_def)
  have n: "length (filter (matches (whereOf ?qs)) (rows sampleStore)) = 1"
    unfolding w by (simp add: matches_def sampleStore_def)
  note pinst = defaults_only_when_absent_or_empty[where searchParams = ?ps and v = "''abc''"]
  from pinst g ne have nan: "parseInt ''abc'' = NaN" by blast
  from pinst g ne nan have a: "pageOf ?ps = NaN" "arg_skip (findManyArgsOf ?ps) = NaN"
    by blast+
  note qinst = defaults_only_when_absent_or_empty[where searchParams = ?qs and p = 1
      and faults = noFaults and db = sampleStore]
  from qinst g have pq: "pageOf ?qs = Finite (of_int 1)" by simp
  from qinst g pq h n have b: "\<exists>pg. GET noFaults sampleStore ?qs = (200, IssuesBody [] pg)
         \<and> total pg = Finite 1 \<and> totalPages pg = PosInfinity"
    by simp
  from g(1,2) ne nan a pq h b show ?thesis by (intro conjI)
qed

end
